theory Spec2Isabelle
  imports Main
begin

section \<open>Data model\<close>

text \<open>
  The controller \<^verbatim>\<open>lib/controllers/usersController.js\<close> works on mongoose
  documents of the \<^verbatim>\<open>User\<close> model. The record below holds the fields of such a
  document that the controller reads, writes or queries. An absent (undefined) field is
  \<open>None\<close>. Timestamps are milliseconds since the epoch, as \<^verbatim>\<open>moment\<close> compares them.
\<close>

record user =
  name :: string
  email :: string
  unconfirmedEmail :: "string option"
  password :: string
  language :: string
  resetPasswordToken :: "string option"
  resetPasswordExpires :: "int option"
  emailConfirmationToken :: string
  emailIsConfirmed :: bool

text \<open>
  An error object as the controller inspects it: \<^verbatim>\<open>err.message\<close> and the optional
  \<^verbatim>\<open>err.errors\<close>, an object from field names to entries carrying a message. The
  association list gives the object's own keys in their enumeration order.
\<close>

record js_error =
  message :: string
  errors :: "(string \<times> string) list option"

text \<open>A plain \<^verbatim>\<open>Error\<close> raised by the runtime or a library: a message and nothing else.\<close>

definition thrown :: "string \<Rightarrow> js_error" where
  "thrown m = \<lparr>message = m, errors = None\<rparr>"

text \<open>The restify error classes the controller constructs, each with its message.\<close>

datatype rest_error =
    BadRequestError (error_message: string)
  | ForbiddenError (error_message: string)
  | UnprocessableEntityError (error_message: string)
  | InternalServerError (error_message: string)

text \<open>
  The \<^verbatim>\<open>data\<close> property of a success body: absent, \<^verbatim>\<open>{ user: u }\<close>, or
  \<^verbatim>\<open>{ me: u }\<close> where \<^verbatim>\<open>u\<close> may be undefined.
\<close>

datatype payload_data = NoData | DataUser user | DataMe "user option"

text \<open>
  A response handed to restify: \<^verbatim>\<open>res.send(status, {code, message, data, token})\<close> or
  \<^verbatim>\<open>next(err)\<close>.
\<close>

datatype response =
    Send nat string string payload_data "string option"
  | Next rest_error

text \<open>
  Everything a handler can change. \<open>req_user\<close> is the document of the signed-in user
  (\<^verbatim>\<open>req.user\<close>) as the assignments of \<^verbatim>\<open>updateUser\<close> leave it; handlers of
  unauthenticated routes never touch it. \<open>saved\<close> lists the documents on which
  \<^verbatim>\<open>save()\<close> was invoked, in call order, each as it was at that call. \<open>sent\<close> lists
  the calls of \<^verbatim>\<open>res.send\<close> and \<^verbatim>\<open>next(err)\<close> in call order. A request gets one
  HTTP response, so the client sees the first call a handler makes; \<open>answered\<close> says
  that the response of the request at hand has gone out. \<open>blacklist\<close> is the
  process-wide token blacklist, \<open>notified\<close> the errors given to
  \<^verbatim>\<open>Honeybadger.notify\<close>.
\<close>

record state =
  req_user :: user
  saved :: "user list"
  sent :: "response list"
  answered :: bool
  blacklist :: "string list"
  notified :: "js_error list"

text \<open>
  The parameters of an \<^verbatim>\<open>updateUser\<close> request (\<^verbatim>\<open>req._userParams\<close> and
  \<^verbatim>\<open>req.params.name\<close>), each a string or undefined, and the token of the request
  (\<^verbatim>\<open>req._jwt\<close>).
\<close>

record request =
  param_email :: "string option"
  param_language :: "string option"
  param_currentPassword :: "string option"
  param_newPassword :: "string option"
  param_name :: "string option"
  req_jwt :: string

section \<open>JavaScript helpers\<close>

text \<open>Truthiness of a value that is a string or undefined.\<close>

definition truthy :: "string option \<Rightarrow> bool" where
  "truthy v = (case v of None \<Rightarrow> False | Some s \<Rightarrow> s \<noteq> [])"

text \<open>The string a value contributes to a template literal or an assignment.\<close>

definition val :: "string option \<Rightarrow> string" where
  "val v = (case v of None \<Rightarrow> ''undefined'' | Some s \<Rightarrow> s)"

text \<open>\<^verbatim>\<open>Array.prototype.join\<close>.\<close>

fun join :: "string \<Rightarrow> string list \<Rightarrow> string" where
  "join sep [] = []"
| "join sep [x] = x"
| "join sep (x # y # ys) = x @ sep @ join sep (y # ys)"

section \<open>The runtime under the controller\<close>

text \<open>
  Two behaviours of restify 4 and Node decide what the handlers do, and neither is in
  the sources at hand; they are parameters of every handler.

  The constructors of restify's errors hand their first argument to a printf-style
  formatter, with no further arguments. A message without a per cent sign comes back as
  it is. For a message with one, \<open>sprintf\<close> gives what the formatter does: the
  formatted message (\<open>Inr\<close>), or the message of the \<^verbatim>\<open>Error\<close> it throws at a
  conversion that has no argument (\<open>Inl\<close>).

  \<^verbatim>\<open>res.send\<close> throws once the response of the request has gone out;
  \<open>headers_sent\<close> is the message of that \<^verbatim>\<open>Error\<close>.
\<close>

record runtime =
  sprintf :: "string \<Rightarrow> string + string"
  headers_sent :: string

definition format :: "runtime \<Rightarrow> string \<Rightarrow> string + string" where
  "format rt m = (if CHR ''%'' \<in> set m then sprintf rt m else Inr m)"

text \<open>\<^verbatim>\<open>new restify.SomeError(m)\<close>: the error, or what the constructor throws.\<close>

definition new_error :: "runtime \<Rightarrow> (string \<Rightarrow> rest_error) \<Rightarrow> string \<Rightarrow> js_error + rest_error" where
  "new_error rt k m = (case format rt m of Inl t \<Rightarrow> Inl (thrown t) | Inr m' \<Rightarrow> Inr (k m'))"

text \<open>
  A step of a promise callback either completes or throws; both leave a state. The
  error, if any, is the first component.
\<close>

type_synonym outcome = "js_error option \<times> state"

text \<open>\<^verbatim>\<open>.catch(handler)\<close> behind a step.\<close>

definition catch_with :: "(js_error \<Rightarrow> state \<Rightarrow> state) \<Rightarrow> outcome \<Rightarrow> state" where
  "catch_with handler r = (case r of (None, s) \<Rightarrow> s | (Some err, s) \<Rightarrow> handler err s)"

text \<open>A new request arrives: its response object has not been used.\<close>

definition fresh :: "state \<Rightarrow> state" where
  "fresh s = s\<lparr>answered := False\<rparr>"

text \<open>
  \<^verbatim>\<open>next(err)\<close> with an error that has been constructed. The call is recorded; no
  handler runs any code of its own after a call of \<^verbatim>\<open>next\<close> that follows the response,
  so what restify does with such a call is not followed.
\<close>

definition next_err :: "rest_error \<Rightarrow> state \<Rightarrow> state" where
  "next_err e s = s\<lparr>sent := sent s @ [Next e], answered := True\<rparr>"

text \<open>\<^verbatim>\<open>next(new restify.SomeError(m))\<close> as a step: the constructor may throw.\<close>

definition next_new :: "runtime \<Rightarrow> (string \<Rightarrow> rest_error) \<Rightarrow> string \<Rightarrow> state \<Rightarrow> outcome" where
  "next_new rt k m s =
     (case new_error rt k m of Inl t \<Rightarrow> (Some t, s) | Inr e \<Rightarrow> (None, next_err e s))"

text \<open>\<^verbatim>\<open>res.send(status, body)\<close> as a step: it throws when the response has gone out.\<close>

definition res_send ::
  "runtime \<Rightarrow> nat \<Rightarrow> string \<Rightarrow> string \<Rightarrow> payload_data \<Rightarrow> string option \<Rightarrow> state \<Rightarrow> outcome" where
  "res_send rt status c m d t s =
     (if answered s then Some (thrown (headers_sent rt)) else None,
      s\<lparr>sent := sent s @ [Send status c m d t], answered := True\<rparr>)"

section \<open>Collaborators\<close>

text \<open>
  The invocation of \<^verbatim>\<open>save()\<close> on a document is recorded in the state. Whether a
  save succeeds is not computed here: each handler takes the outcome of its save as an
  argument.
\<close>

definition save :: "user \<Rightarrow> state \<Rightarrow> state" where
  "save u s = s\<lparr>saved := saved s @ [u]\<rparr>"

text \<open>
  Modelled from the spec: what a successful \<^verbatim>\<open>save()\<close> leaves in the Credential Store
  (the models package, not part of the sources at hand). The spec's save is atomic per
  document and returns the user. It gives the store three effects of its own at a save:
  hashing a password that was set, clearing the reset token and its expiry with it, and
  issuing a confirmation token for a new \<^verbatim>\<open>unconfirmedEmail\<close>. \<open>own\<close> carries the values
  the store chooses for those fields; every other field is stored as handed over.
  \<open>store_save\<close> puts the stored document in the place of the one that was loaded.
\<close>

definition stored :: "user \<Rightarrow> user \<Rightarrow> user" where
  "stored doc own =
     doc\<lparr>password := password own,
         resetPasswordToken := resetPasswordToken own,
         resetPasswordExpires := resetPasswordExpires own,
         emailConfirmationToken := emailConfirmationToken own\<rparr>"

definition store_save :: "user \<Rightarrow> user \<Rightarrow> user \<Rightarrow> user list \<Rightarrow> user list" where
  "store_save loaded doc own store = map (\<lambda>x. if x = loaded then stored doc own else x) store"

text \<open>
  Modelled from the spec: the token blacklist (\<^verbatim>\<open>lib/helpers\<close>, not part of the
  sources at hand). The spec's Revocation Registry has an idempotent insert and a
  membership test, backed by an in-memory set.
\<close>

definition addTokenToBlacklist :: "string \<Rightarrow> state \<Rightarrow> state" where
  "addTokenToBlacklist t s =
     (if t \<in> set (blacklist s) then s else s\<lparr>blacklist := t # blacklist s\<rparr>)"

definition isTokenBlacklisted :: "string \<Rightarrow> state \<Rightarrow> bool" where
  "isTokenBlacklisted t s = (t \<in> set (blacklist s))"

text \<open>
  Modelled from the spec: \<^verbatim>\<open>User.validatePassword\<close> (the models package, not part of
  the sources at hand). The spec's rule is a minimum password length of 8.
\<close>

definition validatePassword :: "string \<Rightarrow> bool" where
  "validatePassword p = (8 \<le> length p)"

text \<open>
  Modelled from the spec: the document \<^verbatim>\<open>new User({name, email, password, language})\<close>
  (the schema defaults are in the models package). The spec's initial state has
  \<open>emailIsConfirmed = false\<close> and no pending tokens.
\<close>

definition new_User :: "string \<Rightarrow> string \<Rightarrow> string \<Rightarrow> string \<Rightarrow> user" where
  "new_User n e p l =
     \<lparr>name = n, email = e, unconfirmedEmail = None, password = p, language = l,
      resetPasswordToken = None, resetPasswordExpires = None,
      emailConfirmationToken = [], emailIsConfirmed = False\<rparr>"

text \<open>
  \<^verbatim>\<open>User.findOne(query).exec()\<close> over the stored users: the first document the query
  matches, or null.
\<close>

fun findOne :: "(user \<Rightarrow> bool) \<Rightarrow> user list \<Rightarrow> user option" where
  "findOne q [] = None"
| "findOne q (u # us) = (if q u then Some u else findOne q us)"

text \<open>
  \<^verbatim>\<open>moment.utc().isAfter(moment.utc(expires))\<close>: a strict comparison of the two
  instants. For an undefined \<^verbatim>\<open>expires\<close> the right-hand side is the current time
  itself and for null it is an invalid moment; both give false.
\<close>

definition isAfter :: "int \<Rightarrow> int option \<Rightarrow> bool" where
  "isAfter now expires = (case expires of None \<Rightarrow> False | Some t \<Rightarrow> t < now)"

section \<open>The controller\<close>

text \<open>
  An error class applied to a literal of the source that holds no per cent sign is
  written as the error itself; every message built from data goes through
  \<open>next_new\<close>. A handler starts on the fresh response object of its request.
\<close>

subsection \<open>handleUserError\<close>

definition handleUserError :: "runtime \<Rightarrow> js_error \<Rightarrow> state \<Rightarrow> outcome" where
  "handleUserError rt err s =
     (if message err = ''Duplicate user detected''
      then next_new rt BadRequestError (message err) s
      else case errors err of
        Some fs \<Rightarrow>
          next_new rt UnprocessableEntityError
            (join '', '' (map (\<lambda>(f, m). ''Parameter '' @ f @ '' '' @ m) fs)) s
      | None \<Rightarrow>
          next_new rt InternalServerError (message err) (s\<lparr>notified := notified s @ [err]\<rparr>))"

text \<open>
  Every use of \<^verbatim>\<open>handleUserError\<close> is the body of the last \<^verbatim>\<open>catch\<close> of a chain: what
  it throws is handled by nobody.
\<close>

definition last_catch :: "runtime \<Rightarrow> js_error \<Rightarrow> state \<Rightarrow> state" where
  "last_catch rt err s = snd (handleUserError rt err s)"

subsection \<open>registerUser, signIn, signOut\<close>

text \<open>
  The outcomes of the asynchronous collaborators are arguments: \<open>save_result\<close> is what
  the promise of \<^verbatim>\<open>save()\<close> settles to (\<open>Inl\<close> a rejection), \<open>createToken_result\<close>
  what the promise of \<^verbatim>\<open>createToken()\<close> settles to. The inner \<^verbatim>\<open>catch\<close> of
  \<^verbatim>\<open>registerUser\<close> sits in a promise that the outer \<^verbatim>\<open>then\<close> returns, so what it throws
  reaches the outer \<^verbatim>\<open>catch\<close>.
\<close>

definition registerUser_catch :: "runtime \<Rightarrow> js_error \<Rightarrow> state \<Rightarrow> outcome" where
  "registerUser_catch rt err s =
     next_new rt InternalServerError
       (''User successfully created but unable to create jwt token: '' @ message err) s"

definition registerUser ::
  "runtime \<Rightarrow> string \<Rightarrow> string \<Rightarrow> string \<Rightarrow> string \<Rightarrow> js_error + user \<Rightarrow> js_error + string
     \<Rightarrow> state \<Rightarrow> state" where
  "registerUser rt n e p l save_result createToken_result s =
     (let s1 = save (new_User n e p l) (fresh s) in
      case save_result of
        Inl err \<Rightarrow> last_catch rt err s1
      | Inr newUser \<Rightarrow>
          catch_with (last_catch rt)
            (case (case createToken_result of
                     Inr token \<Rightarrow>
                       res_send rt 201 ''Created'' ''Successfully registered new user''
                         (DataUser newUser) (Some token) s1
                   | Inl err \<Rightarrow> (Some err, s1)) of
               (None, s2) \<Rightarrow> (None, s2)
             | (Some err, s2) \<Rightarrow> registerUser_catch rt err s2))"

definition signIn :: "runtime \<Rightarrow> js_error + string \<Rightarrow> state \<Rightarrow> state" where
  "signIn rt createToken_result s =
     catch_with
       (\<lambda>err s1. snd (next_new rt InternalServerError
                        (''unable to create jwt token: '' @ message err) s1))
       (case createToken_result of
          Inr token \<Rightarrow>
            res_send rt 200 ''Authorized'' ''Successfully signed in''
              (DataUser (req_user s)) (Some token) (fresh s)
        | Inl err \<Rightarrow> (Some err, fresh s))"

definition signOut :: "runtime \<Rightarrow> string \<Rightarrow> state \<Rightarrow> state" where
  "signOut rt jwt s =
     snd (res_send rt 200 ''Ok'' ''Successfully signed out'' NoData None
            (addTokenToBlacklist jwt (fresh s)))"

subsection \<open>resetPassword\<close>

text \<open>
  The arguments are the three required parameters, the current time, the stored users
  the query runs over and the outcome of the save.
\<close>

definition resetPassword ::
  "runtime \<Rightarrow> string \<Rightarrow> string \<Rightarrow> string \<Rightarrow> int \<Rightarrow> user list \<Rightarrow> js_error + user
     \<Rightarrow> state \<Rightarrow> state" where
  "resetPassword rt pw token em now store save_result s =
     (case findOne (\<lambda>u. email u = em \<and> resetPasswordToken u = Some token) store of
        None \<Rightarrow> next_err (ForbiddenError ''Password reset for this user not possible'') (fresh s)
      | Some u \<Rightarrow>
          if isAfter now (resetPasswordExpires u)
          then next_err (ForbiddenError ''Password reset token expired'') (fresh s)
          else
            (let s1 = save (u\<lparr>password := pw\<rparr>) (fresh s) in
             case save_result of
               Inl err \<Rightarrow> last_catch rt err s1
             | Inr _ \<Rightarrow>
                 catch_with (last_catch rt)
                   (res_send rt 200 ''Ok''
                      ''Password successfully changed. You can now login with your new password''
                      NoData None s1)))"

subsection \<open>confirmEmailAddress\<close>

text \<open>
  The query is \<^verbatim>\<open>$and: [ $or: [ {email}, {unconfirmedEmail: email} ], {emailConfirmationToken: token} ]\<close>.
  The handler sets two fields of the found document and saves it.
\<close>

definition confirmEmailAddress ::
  "runtime \<Rightarrow> string \<Rightarrow> string \<Rightarrow> user list \<Rightarrow> js_error + user \<Rightarrow> state \<Rightarrow> state" where
  "confirmEmailAddress rt token em store save_result s =
     (case findOne (\<lambda>u. (email u = em \<or> unconfirmedEmail u = Some em)
                          \<and> emailConfirmationToken u = token) store of
        None \<Rightarrow> next_err (ForbiddenError ''invalid email confirmation token'') (fresh s)
      | Some u \<Rightarrow>
          (let s1 = save (u\<lparr>emailConfirmationToken := [], emailIsConfirmed := True\<rparr>) (fresh s) in
           case save_result of
             Inl err \<Rightarrow> last_catch rt err s1
           | Inr _ \<Rightarrow>
               catch_with (last_catch rt)
                 (res_send rt 200 ''Ok'' ''E-Mail successfully confirmed. Thank you''
                    NoData None s1)))"

subsection \<open>updateUser\<close>

text \<open>
  The local variables of \<^verbatim>\<open>updateUser\<close> that its promise callbacks share: the
  document being edited, the queued messages and the two flags.
\<close>

record changes =
  doc :: user
  msgs :: "string list"
  signOut_flag :: bool
  somethingsChanged :: bool

text \<open>The four guarded assignments, in source order.\<close>

definition change_name :: "request \<Rightarrow> changes \<Rightarrow> changes" where
  "change_name req c =
     (if truthy (param_name req) \<and> param_name req \<noteq> Some [] \<and> name (doc c) \<noteq> val (param_name req)
      then c\<lparr>doc := (doc c)\<lparr>name := val (param_name req)\<rparr>, somethingsChanged := True\<rparr>
      else c)"

definition change_language :: "request \<Rightarrow> changes \<Rightarrow> changes" where
  "change_language req c =
     (if truthy (param_language req) \<and> param_language req \<noteq> Some []
         \<and> language (doc c) \<noteq> val (param_language req)
      then c\<lparr>doc := (doc c)\<lparr>language := val (param_language req)\<rparr>, somethingsChanged := True\<rparr>
      else c)"

definition change_email :: "request \<Rightarrow> changes \<Rightarrow> changes" where
  "change_email req c =
     (if truthy (param_email req) \<and> param_email req \<noteq> Some [] \<and> email (doc c) \<noteq> val (param_email req)
      then c\<lparr>doc := (doc c)\<lparr>unconfirmedEmail := param_email req\<rparr>,
             msgs := msgs c @ ['' E-Mail changed. Please confirm your new address. Until confirmation, sign in using your old address''],
             somethingsChanged := True\<rparr>
      else c)"

definition change_password :: "request \<Rightarrow> changes \<Rightarrow> changes" where
  "change_password req c =
     (if truthy (param_newPassword req) \<and> param_newPassword req \<noteq> Some []
      then c\<lparr>doc := (doc c)\<lparr>password := val (param_newPassword req)\<rparr>,
             msgs := msgs c @ ['' Password changed. Please log in with your new password''],
             signOut_flag := True,
             somethingsChanged := True\<rparr>
      else c)"

definition apply_changes :: "request \<Rightarrow> user \<Rightarrow> changes" where
  "apply_changes req u =
     change_password req (change_email req (change_language req (change_name req
       \<lparr>doc = u, msgs = [], signOut_flag = False, somethingsChanged = False\<rparr>)))"

text \<open>
  The second \<^verbatim>\<open>then\<close> callback. It runs with whatever the first callback returned:
  the saved user, or undefined after \<^verbatim>\<open>return next(...)\<close>.
\<close>

definition updateUser_saved ::
  "runtime \<Rightarrow> request \<Rightarrow> bool \<Rightarrow> string list \<Rightarrow> user option \<Rightarrow> state \<Rightarrow> outcome" where
  "updateUser_saved rt req sign_out ms updatedUser s =
     res_send rt 200 ''Ok'' (''User successfully saved.'' @ join ''.'' ms) (DataMe updatedUser) None
       (if sign_out = True then addTokenToBlacklist (req_jwt req) s else s)"

text \<open>The \<^verbatim>\<open>catch\<close> callback, the last of the chain.\<close>

definition updateUser_catch :: "runtime \<Rightarrow> request \<Rightarrow> js_error \<Rightarrow> state \<Rightarrow> state" where
  "updateUser_catch rt req err s =
     (if (case errors err of None \<Rightarrow> False | Some fs \<Rightarrow> ''unconfirmedEmail'' \<in> set (map fst fs))
      then snd (next_new rt UnprocessableEntityError
             (''New email address invalid or an user with the email address ''
                @ val (param_email req) @ '' already existsh.'') s)
      else last_catch rt err s)"

text \<open>
  The first \<^verbatim>\<open>then\<close> callback, with the rest of the chain behind it. A step that
  throws skips the steps after it and lands in the \<^verbatim>\<open>catch\<close>.
\<close>

definition updateUser_then ::
  "runtime \<Rightarrow> request \<Rightarrow> bool \<Rightarrow> js_error + user \<Rightarrow> state \<Rightarrow> state" where
  "updateUser_then rt req oldPasswordIsCorrect save_result s =
     catch_with (updateUser_catch rt req)
       (if oldPasswordIsCorrect = False
        then updateUser_saved rt req False [] None
               (next_err (BadRequestError ''Current password not correct.'') s)
        else
          (let c = apply_changes req (req_user s);
               s1 = s\<lparr>req_user := doc c\<rparr>
           in case (if somethingsChanged c = False
                    then res_send rt 200 ''Ok''
                           ''No changed properties supplied. User remains unchanged.''
                           NoData None s1
                    else (None, s1)) of
                (Some err, s2) \<Rightarrow> (Some err, s2)
              | (None, s2) \<Rightarrow>
                  (case save_result of
                     Inl err \<Rightarrow> (Some err, save (doc c) s2)
                   | Inr updatedUser \<Rightarrow>
                       updateUser_saved rt req (signOut_flag c) (msgs c) (Some updatedUser)
                         (save (doc c) s2))))"

text \<open>
  \<open>checkPassword_result\<close> is what the promise of
  \<^verbatim>\<open>req.user.checkPassword(currentPassword)\<close> settles to, should the handler call it.
\<close>

definition updateUser ::
  "runtime \<Rightarrow> request \<Rightarrow> js_error + bool \<Rightarrow> js_error + user \<Rightarrow> state \<Rightarrow> state" where
  "updateUser rt req checkPassword_result save_result s =
     (if truthy (param_email req) \<and> truthy (param_newPassword req)
      then next_err (BadRequestError
             ''You cannot change your email address and password in the same request.'') (fresh s)
      else if (truthy (param_newPassword req) \<and> param_newPassword req \<noteq> Some [])
              \<or> (truthy (param_email req) \<and> param_email req \<noteq> Some [])
      then
        (if \<not> truthy (param_currentPassword req) \<or> param_currentPassword req = Some []
         then next_err (BadRequestError
                ''To change your password or email address, please supply your current password.'')
                (fresh s)
         else if truthy (param_newPassword req)
                 \<and> validatePassword (val (param_newPassword req)) = False
         then next_err (BadRequestError ''New password should have at least 8 characters'')
                (fresh s)
         else
           (case checkPassword_result of
              Inl err \<Rightarrow> updateUser_catch rt req err (fresh s)
            | Inr oldPasswordIsCorrect \<Rightarrow>
                updateUser_then rt req oldPasswordIsCorrect save_result (fresh s)))
      else updateUser_then rt req True save_result (fresh s))"

section \<open>What the client sees\<close>

text \<open>
  The response of a handler run from state \<open>s\<close> to state \<open>s'\<close>: the first call of
  \<^verbatim>\<open>res.send\<close> or \<^verbatim>\<open>next(err)\<close> that the run made, if it made one.
\<close>

definition first_response :: "state \<Rightarrow> state \<Rightarrow> response option" where
  "first_response s s' =
     (case drop (length (sent s)) (sent s') of [] \<Rightarrow> None | r # _ \<Rightarrow> Some r)"

section \<open>Sample data\<close>

text \<open>
  A runtime whose formatter throws at every message with a per cent sign, as the
  formatter does at \<^verbatim>\<open>%s\<close> without an argument.
\<close>

definition rt0 :: runtime where
  "rt0 = \<lparr>sprintf = (\<lambda>m. Inl ''too few args to sprintf''),
          headers_sent = ''Cannot set headers after they are sent to the client''\<rparr>"

definition alice :: user where
  "alice = new_User ''alice01'' ''a@x.com'' ''longenough1'' ''en_US''"

definition s0 :: state where
  "s0 = \<lparr>req_user = alice, saved = [], sent = [], answered = False, blacklist = [],
         notified = []\<rparr>"

definition no_params :: request where
  "no_params = \<lparr>param_email = None, param_language = None, param_currentPassword = None,
                param_newPassword = None, param_name = None, req_jwt = ''t1''\<rparr>"

definition both_params :: request where
  "both_params = no_params\<lparr>param_email := Some ''b@x.com'',
                            param_newPassword := Some ''longenough2'',
                            param_currentPassword := Some ''longenough1''\<rparr>"

definition pending_reset :: user where
  "pending_reset = alice\<lparr>resetPasswordToken := Some ''r1'', resetPasswordExpires := Some 1000\<rparr>"

definition pending_email :: user where
  "pending_email = alice\<lparr>unconfirmedEmail := Some ''b@x.com'', emailConfirmationToken := ''c1''\<rparr>"

definition format_error :: js_error where
  "format_error = \<lparr>message = ''bad %s token'', errors = None\<rparr>"

definition pw_change :: request where
  "pw_change = no_params\<lparr>param_newPassword := Some ''longenough2'',
                          param_currentPassword := Some ''longenough1''\<rparr>"

definition alice2 :: user where
  "alice2 = alice\<lparr>password := ''longenough2''\<rparr>"

text \<open>Two sign-ins of the same user, then a password change made with the first token.\<close>

definition s_signed_in :: state where
  "s_signed_in = signIn rt0 (Inr ''t2'') (signIn rt0 (Inr ''t1'') s0)"

definition s_changed :: state where
  "s_changed = updateUser rt0 pw_change (Inr True) (Inr alice2) s_signed_in"

definition wrong_current :: request where
  "wrong_current = no_params\<lparr>param_newPassword := Some ''longenough2'',
                              param_currentPassword := Some ''wrong''\<rparr>"

definition short_pw_wrong_current :: request where
  "short_pw_wrong_current = no_params\<lparr>param_newPassword := Some ''short'',
                                       param_currentPassword := Some ''wrong''\<rparr>"



section \<open>Lookups\<close>

lemma findOne_None_iff: "findOne q us = None \<longleftrightarrow> (\<forall>u \<in> set us. \<not> q u)"
  by (induction us) auto

lemma findOne_Some_mem: "findOne q us = Some u \<Longrightarrow> u \<in> set us"
  by (induction us) (auto split: if_splits)

section \<open>What the last catch leaves alone\<close>

lemma last_catch_frame:
  "req_user (last_catch rt err s) = req_user s"
  "saved (last_catch rt err s) = saved s"
  "blacklist (last_catch rt err s) = blacklist s"
  by (simp_all add: last_catch_def handleUserError_def next_new_def new_error_def next_err_def
      split: sum.splits option.splits)

lemma last_catch_sent:
  "sent (last_catch rt err s) = sent s
   \<or> (\<exists>m. sent (last_catch rt err s) = sent s @ [Next (BadRequestError m)])
   \<or> (\<exists>m. sent (last_catch rt err s) = sent s @ [Next (UnprocessableEntityError m)])
   \<or> (\<exists>m. sent (last_catch rt err s) = sent s @ [Next (InternalServerError m)])"
  by (simp add: last_catch_def handleUserError_def next_new_def new_error_def next_err_def
      split: sum.splits option.splits)

lemma first_response_last_catch:
  assumes "sent s1 = sent s @ r # rs"
  shows "first_response s (last_catch rt err s1) = Some r"
  using assms last_catch_sent [of rt err s1]
  by (auto simp add: first_response_def)

section \<open>Profile update: the upfront rejection\<close>

text \<open>
  Claim C3. An \<^verbatim>\<open>updateUser\<close> request with both a non-empty \<^verbatim>\<open>email\<close> and a non-empty
  \<^verbatim>\<open>newPassword\<close> fails with the BadRequest error of the first check, whatever the
  password check and the store would have answered. Nothing else happens: the final
  state is the initial one with that single response added, so the user document, the
  list of save calls and the token blacklist are as before.
\<close>

theorem updateUser_email_with_password_rejected:
  assumes "param_email req = Some e" and "e \<noteq> []"
    and "param_newPassword req = Some np" and "np \<noteq> []"
  shows "updateUser rt req checkPassword_result save_result s =
           next_err (BadRequestError
             ''You cannot change your email address and password in the same request.'') (fresh s)
         \<and> first_response s (updateUser rt req checkPassword_result save_result s) =
             Some (Next (BadRequestError
               ''You cannot change your email address and password in the same request.''))
         \<and> req_user (updateUser rt req checkPassword_result save_result s) = req_user s
         \<and> saved (updateUser rt req checkPassword_result save_result s) = saved s
         \<and> blacklist (updateUser rt req checkPassword_result save_result s) = blacklist s"
  using assms
  by (simp add: updateUser_def truthy_def next_err_def fresh_def first_response_def)

theorem updateUser_email_with_password_rejected_witness:
  "param_email both_params = Some ''b@x.com''
   \<and> param_newPassword both_params = Some ''longenough2''
   \<and> updateUser rt0 both_params (Inr True) (Inr alice) s0 =
       s0\<lparr>sent := [Next (BadRequestError
         ''You cannot change your email address and password in the same request.'')],
          answered := True\<rparr>"
  using updateUser_email_with_password_rejected
    [of both_params "''b@x.com''" "''longenough2''" rt0 "Inr True" "Inr alice" s0]
  by (simp add: both_params_def no_params_def next_err_def fresh_def s0_def)

section \<open>Password reset\<close>

text \<open>
  Claim C4. When the lookup by email and reset token finds a user whose
  \<^verbatim>\<open>resetPasswordExpires\<close> lies before the current time, \<^verbatim>\<open>resetPassword\<close> answers with
  the error \<^verbatim>\<open>Password reset token expired\<close> and saves nothing. A request whose lookup
  finds no user is answered with \<^verbatim>\<open>Password reset for this user not possible\<close>, so the
  two responses differ.
\<close>

theorem resetPassword_expired_token:
  assumes "findOne (\<lambda>u. email u = em \<and> resetPasswordToken u = Some token) store = Some u"
    and "resetPasswordExpires u = Some t" and "t < now"
    and "findOne (\<lambda>u. email u = em' \<and> resetPasswordToken u = Some token') store' = None"
  shows "resetPassword rt pw token em now store save_result s =
           next_err (ForbiddenError ''Password reset token expired'') (fresh s)
         \<and> first_response s (resetPassword rt pw token em now store save_result s) =
             Some (Next (ForbiddenError ''Password reset token expired''))
         \<and> first_response s (resetPassword rt pw' token' em' now' store' save_result' s) =
             Some (Next (ForbiddenError ''Password reset for this user not possible''))
         \<and> first_response s (resetPassword rt pw token em now store save_result s) \<noteq>
             first_response s (resetPassword rt pw' token' em' now' store' save_result' s)
         \<and> saved (resetPassword rt pw token em now store save_result s) = saved s"
  using assms
  by (simp add: resetPassword_def isAfter_def next_err_def fresh_def first_response_def)

theorem resetPassword_expired_token_witness:
  "findOne (\<lambda>u. email u = ''a@x.com'' \<and> resetPasswordToken u = Some ''r1'') [pending_reset]
     = Some pending_reset
   \<and> resetPasswordExpires pending_reset = Some 1000 \<and> (1000::int) < 1001
   \<and> findOne (\<lambda>u. email u = ''a@x.com'' \<and> resetPasswordToken u = Some ''r2'') [pending_reset]
     = None
   \<and> resetPassword rt0 ''longenough2'' ''r1'' ''a@x.com'' 1001 [pending_reset]
        (Inr pending_reset) s0 =
       s0\<lparr>sent := [Next (ForbiddenError ''Password reset token expired'')], answered := True\<rparr>
   \<and> first_response s0
        (resetPassword rt0 ''longenough2'' ''r2'' ''a@x.com'' 1001 [pending_reset]
           (Inr pending_reset) s0)
       = Some (Next (ForbiddenError ''Password reset for this user not possible''))"
proof -
  have f: "findOne (\<lambda>u. email u = ''a@x.com'' \<and> resetPasswordToken u = Some ''r1'') [pending_reset]
     = Some pending_reset"
    by (simp add: pending_reset_def alice_def new_User_def)
  have e: "resetPasswordExpires pending_reset = Some 1000"
    by (simp add: pending_reset_def)
  have l: "(1000::int) < 1001"
    by simp
  have n: "findOne (\<lambda>u. email u = ''a@x.com'' \<and> resetPasswordToken u = Some ''r2'') [pending_reset]
     = None"
    by (simp add: pending_reset_def)
  show ?thesis
    using f e n resetPassword_expired_token
      [OF f e l n, of rt0 "''longenough2''" "Inr pending_reset" s0 "''longenough2''" 1001
        "Inr pending_reset"]
    by (simp add: next_err_def fresh_def s0_def)
qed

text \<open>
  Claim C10. The expiry check is strict. A \<^verbatim>\<open>resetPassword\<close> request that arrives at
  exactly the instant \<^verbatim>\<open>resetPasswordExpires\<close> is not answered with the expired error:
  the handler sets the new password on the found user and invokes save on it, and
  answers with the success message when the save succeeds.
\<close>

theorem resetPassword_at_expiry_instant:
  assumes "findOne (\<lambda>u. email u = em \<and> resetPasswordToken u = Some token) store = Some u"
    and "resetPasswordExpires u = Some now"
  shows "saved (resetPassword rt pw token em now store save_result s) = saved s @ [u\<lparr>password := pw\<rparr>]
         \<and> first_response s (resetPassword rt pw token em now store save_result s) \<noteq>
             Some (Next (ForbiddenError ''Password reset token expired''))
         \<and> first_response s (resetPassword rt pw token em now store (Inr updated) s) =
             Some (Send 200 ''Ok''
               ''Password successfully changed. You can now login with your new password''
               NoData None)"
proof -
  have ok: "resetPassword rt pw token em now store (Inr x) s =
      (save (u\<lparr>password := pw\<rparr>) (fresh s))
        \<lparr>sent := sent s @ [Send 200 ''Ok''
           ''Password successfully changed. You can now login with your new password''
           NoData None], answered := True\<rparr>" for x
    using assms
    by (simp add: resetPassword_def isAfter_def res_send_def catch_with_def save_def fresh_def)
  have bad: "resetPassword rt pw token em now store (Inl err) s =
      last_catch rt err (save (u\<lparr>password := pw\<rparr>) (fresh s))" for err
    using assms by (simp add: resetPassword_def isAfter_def)
  have sv: "saved (resetPassword rt pw token em now store save_result s) =
      saved s @ [u\<lparr>password := pw\<rparr>]"
    by (cases save_result) (simp_all add: ok bad last_catch_frame save_def fresh_def)
  have ne: "first_response s (resetPassword rt pw token em now store save_result s) \<noteq>
             Some (Next (ForbiddenError ''Password reset token expired''))"
  proof (cases save_result)
    case (Inl err)
    show ?thesis
      using last_catch_sent [of rt err "save (u\<lparr>password := pw\<rparr>) (fresh s)"]
      unfolding Inl bad
      by (auto simp add: first_response_def save_def fresh_def)
  next
    case (Inr x)
    show ?thesis
      unfolding Inr ok by (simp add: first_response_def save_def fresh_def)
  qed
  show ?thesis
    using sv ne by (simp add: ok first_response_def save_def fresh_def)
qed

theorem resetPassword_at_expiry_instant_witness:
  "findOne (\<lambda>u. email u = ''a@x.com'' \<and> resetPasswordToken u = Some ''r1'') [pending_reset]
     = Some pending_reset
   \<and> resetPasswordExpires pending_reset = Some 1000
   \<and> saved (resetPassword rt0 ''longenough2'' ''r1'' ''a@x.com'' 1000 [pending_reset]
        (Inr pending_reset) s0)
       = [pending_reset\<lparr>password := ''longenough2''\<rparr>]
   \<and> first_response s0 (resetPassword rt0 ''longenough2'' ''r1'' ''a@x.com'' 1000 [pending_reset]
        (Inr pending_reset) s0)
       = Some (Send 200 ''Ok''
               ''Password successfully changed. You can now login with your new password''
               NoData None)"
proof -
  have f: "findOne (\<lambda>u. email u = ''a@x.com'' \<and> resetPasswordToken u = Some ''r1'') [pending_reset]
     = Some pending_reset"
    by (simp add: pending_reset_def alice_def new_User_def)
  have e: "resetPasswordExpires pending_reset = Some 1000"
    by (simp add: pending_reset_def)
  show ?thesis
    using f e resetPassword_at_expiry_instant
      [OF f e, of rt0 "''longenough2''" "Inr pending_reset" s0 pending_reset]
    by (simp add: s0_def)
qed

section \<open>Denied lookups\<close>

text \<open>
  Claim C5. Take a \<^verbatim>\<open>resetPassword\<close> request whose token matches no stored reset token
  of a user with the given email, and any \<^verbatim>\<open>resetPassword\<close> request for that email
  against a store in which no user has it. Both runs end in the same state: the initial
  one with the single response \<^verbatim>\<open>ForbiddenError('Password reset for this user not possible')\<close>.
  The same holds for \<^verbatim>\<open>confirmEmailAddress\<close>, with the email looked up in both
  \<^verbatim>\<open>email\<close> and \<^verbatim>\<open>unconfirmedEmail\<close> and the response
  \<^verbatim>\<open>ForbiddenError('invalid email confirmation token')\<close>.
\<close>

theorem wrong_token_like_unknown_user:
  "((\<forall>u \<in> set store. email u = em \<longrightarrow> resetPasswordToken u \<noteq> Some token)
      \<and> (\<forall>u \<in> set store'. email u \<noteq> em)
     \<longrightarrow> resetPassword rt pw token em now store save_result s =
           next_err (ForbiddenError ''Password reset for this user not possible'') (fresh s)
         \<and> resetPassword rt pw' token' em now' store' save_result' s =
           resetPassword rt pw token em now store save_result s)
   \<and> ((\<forall>u \<in> set store. email u = em \<or> unconfirmedEmail u = Some em
           \<longrightarrow> emailConfirmationToken u \<noteq> token)
      \<and> (\<forall>u \<in> set store'. email u \<noteq> em \<and> unconfirmedEmail u \<noteq> Some em)
     \<longrightarrow> confirmEmailAddress rt token em store save_result s =
           next_err (ForbiddenError ''invalid email confirmation token'') (fresh s)
         \<and> confirmEmailAddress rt token' em store' save_result' s =
           confirmEmailAddress rt token em store save_result s)"
proof -
  have r: "findOne (\<lambda>u. email u = em \<and> resetPasswordToken u = Some token) store = None"
    if "\<forall>u \<in> set store. email u = em \<longrightarrow> resetPasswordToken u \<noteq> Some token"
    using that by (simp add: findOne_None_iff)
  have r': "findOne (\<lambda>u. email u = em \<and> resetPasswordToken u = Some token') store' = None"
    if "\<forall>u \<in> set store'. email u \<noteq> em"
    using that by (simp add: findOne_None_iff)
  have c: "findOne (\<lambda>u. (email u = em \<or> unconfirmedEmail u = Some em)
              \<and> emailConfirmationToken u = token) store = None"
    if "\<forall>u \<in> set store. email u = em \<or> unconfirmedEmail u = Some em
           \<longrightarrow> emailConfirmationToken u \<noteq> token"
    using that by (auto simp add: findOne_None_iff)
  have c': "findOne (\<lambda>u. (email u = em \<or> unconfirmedEmail u = Some em)
              \<and> emailConfirmationToken u = token') store' = None"
    if "\<forall>u \<in> set store'. email u \<noteq> em \<and> unconfirmedEmail u \<noteq> Some em"
    using that by (simp add: findOne_None_iff)
  show ?thesis
    by (simp add: resetPassword_def confirmEmailAddress_def r r' c c')
qed

theorem wrong_token_like_unknown_user_witness:
  "email pending_reset = ''a@x.com'' \<and> resetPasswordToken pending_reset = Some ''r1''
   \<and> resetPassword rt0 ''longenough2'' ''r2'' ''a@x.com'' 500 [pending_reset] (Inr alice) s0 =
       s0\<lparr>sent := [Next (ForbiddenError ''Password reset for this user not possible'')],
          answered := True\<rparr>
   \<and> resetPassword rt0 ''longenough2'' ''r2'' ''a@x.com'' 500 [] (Inr alice) s0 =
       s0\<lparr>sent := [Next (ForbiddenError ''Password reset for this user not possible'')],
          answered := True\<rparr>
   \<and> unconfirmedEmail pending_email = Some ''b@x.com''
   \<and> emailConfirmationToken pending_email = ''c1''
   \<and> confirmEmailAddress rt0 ''c2'' ''b@x.com'' [pending_email] (Inr alice) s0 =
       s0\<lparr>sent := [Next (ForbiddenError ''invalid email confirmation token'')],
          answered := True\<rparr>
   \<and> confirmEmailAddress rt0 ''c2'' ''b@x.com'' [] (Inr alice) s0 =
       s0\<lparr>sent := [Next (ForbiddenError ''invalid email confirmation token'')],
          answered := True\<rparr>"
  using wrong_token_like_unknown_user
      [of "[pending_reset]" "''a@x.com''" "''r2''" "[]" rt0 "''longenough2''" 500 "Inr alice" s0
        "''longenough2''" "''r2''" 500 "Inr alice"]
    wrong_token_like_unknown_user
      [of "[pending_email]" "''b@x.com''" "''c2''" "[]" rt0 "''longenough2''" 500 "Inr alice" s0
        "''longenough2''" "''c2''" 500 "Inr alice"]
  by (simp add: pending_reset_def pending_email_def alice_def new_User_def next_err_def
      fresh_def s0_def)

section \<open>Registration\<close>

text \<open>
  With a message free of per cent signs the token failure is reported as the source
  words it.
\<close>

lemma registerUser_token_failure_plain:
  assumes "CHR ''%'' \<notin> set (message err)"
  shows "registerUser rt n e p l (Inr newUser) (Inl err) s =
     next_err (InternalServerError
       (''User successfully created but unable to create jwt token: '' @ message err))
       (save (new_User n e p l) (fresh s))"
  using assms
  by (simp add: registerUser_def registerUser_catch_def next_new_def new_error_def format_def
      catch_with_def)

text \<open>
  Claim C8 against the code. The message of the token failure is built from
  \<^verbatim>\<open>err.message\<close> and handed to the error constructor, which reads it as a format.
  When the formatter throws on it, the inner \<^verbatim>\<open>catch\<close> never calls \<^verbatim>\<open>next\<close>: the
  outer \<^verbatim>\<open>catch\<close> takes the formatter's error to \<^verbatim>\<open>handleUserError\<close>. With a
  formatter message that is itself free of per cent signs the client gets an
  InternalServerError carrying that message, which says nothing of the account, and the
  error is reported to Honeybadger.
\<close>

theorem registerUser_token_failure_unformatted:
  assumes "CHR ''%'' \<in> set (message err)"
    and "sprintf rt (''User successfully created but unable to create jwt token: '' @ message err)
           = Inl t"
  shows "registerUser rt n e p l (Inr newUser) (Inl err) s =
           last_catch rt (thrown t) (save (new_User n e p l) (fresh s))
         \<and> (CHR ''%'' \<notin> set t \<and> t \<noteq> ''Duplicate user detected'' \<longrightarrow>
              first_response s (registerUser rt n e p l (Inr newUser) (Inl err) s) =
                Some (Next (InternalServerError t))
              \<and> notified (registerUser rt n e p l (Inr newUser) (Inl err) s) =
                  notified s @ [thrown t])"
proof -
  have r: "registerUser rt n e p l (Inr newUser) (Inl err) s =
           last_catch rt (thrown t) (save (new_User n e p l) (fresh s))"
    using assms
    by (simp add: registerUser_def registerUser_catch_def next_new_def new_error_def format_def
        catch_with_def)
  show ?thesis
    unfolding r
    by (simp add: last_catch_def handleUserError_def next_new_def new_error_def format_def
        thrown_def next_err_def save_def fresh_def first_response_def)
qed

theorem registerUser_token_failure_unformatted_witness:
  "CHR ''%'' \<in> set (message format_error)
   \<and> sprintf rt0 (''User successfully created but unable to create jwt token: ''
        @ message format_error) = Inl ''too few args to sprintf''
   \<and> first_response s0 (registerUser rt0 ''alice01'' ''a@x.com'' ''longenough1'' ''en_US''
        (Inr alice) (Inl format_error) s0) =
       Some (Next (InternalServerError ''too few args to sprintf''))
   \<and> notified (registerUser rt0 ''alice01'' ''a@x.com'' ''longenough1'' ''en_US''
        (Inr alice) (Inl format_error) s0) = [thrown ''too few args to sprintf'']"
proof -
  have p: "CHR ''%'' \<in> set (message format_error)"
    by (simp add: format_error_def)
  have t: "sprintf rt0 (''User successfully created but unable to create jwt token: ''
        @ message format_error) = Inl ''too few args to sprintf''"
    by (simp add: rt0_def)
  have c: "CHR ''%'' \<notin> set ''too few args to sprintf''
      \<and> ''too few args to sprintf'' \<noteq> ''Duplicate user detected''"
    by simp
  have n: "notified s0 = []"
    by (simp add: s0_def)
  from registerUser_token_failure_unformatted
      [OF p t, of "''alice01''" "''a@x.com''" "''longenough1''" "''en_US''" alice s0] c
  have "first_response s0 (registerUser rt0 ''alice01'' ''a@x.com'' ''longenough1'' ''en_US''
        (Inr alice) (Inl format_error) s0) =
       Some (Next (InternalServerError ''too few args to sprintf''))
   \<and> notified (registerUser rt0 ''alice01'' ''a@x.com'' ''longenough1'' ''en_US''
        (Inr alice) (Inl format_error) s0) = notified s0 @ [thrown ''too few args to sprintf'']"
    by blast
  with p t n show ?thesis
    by simp
qed

section \<open>Email confirmation\<close>

text \<open>
  Claim C9 against the code. Take a user with a pending address: the lookup finds the
  user by \<^verbatim>\<open>unconfirmedEmail\<close> and confirmation token, and the confirmed \<^verbatim>\<open>email\<close> is
  another address. \<^verbatim>\<open>confirmEmailAddress\<close> sets \<^verbatim>\<open>emailConfirmationToken\<close> to the empty
  string and \<^verbatim>\<open>emailIsConfirmed\<close> to true, invokes save on that document and answers
  with the success message when the save succeeds. It never assigns \<^verbatim>\<open>email\<close>: the
  document that the store holds after the save is confirmed, has the old address as
  \<^verbatim>\<open>email\<close> and the confirmed one still as \<^verbatim>\<open>unconfirmedEmail\<close>, and no other stored
  document has changed.
\<close>

theorem confirmEmailAddress_does_not_promote:
  assumes "findOne (\<lambda>u. (email u = em \<or> unconfirmedEmail u = Some em)
                          \<and> emailConfirmationToken u = token) store = Some u"
    and "unconfirmedEmail u = Some em" and "email u \<noteq> em"
  shows "saved (confirmEmailAddress rt token em store save_result s) =
           saved s @ [u\<lparr>emailConfirmationToken := [], emailIsConfirmed := True\<rparr>]
         \<and> first_response s (confirmEmailAddress rt token em store (Inr updated) s) =
             Some (Send 200 ''Ok'' ''E-Mail successfully confirmed. Thank you'' NoData None)
         \<and> stored (u\<lparr>emailConfirmationToken := [], emailIsConfirmed := True\<rparr>) own
             \<in> set (store_save u (u\<lparr>emailConfirmationToken := [], emailIsConfirmed := True\<rparr>)
                      own store)
         \<and> set (store_save u (u\<lparr>emailConfirmationToken := [], emailIsConfirmed := True\<rparr>)
                  own store)
             \<subseteq> insert (stored (u\<lparr>emailConfirmationToken := [], emailIsConfirmed := True\<rparr>) own)
                 (set store)
         \<and> email (stored (u\<lparr>emailConfirmationToken := [], emailIsConfirmed := True\<rparr>) own)
             = email u
         \<and> email (stored (u\<lparr>emailConfirmationToken := [], emailIsConfirmed := True\<rparr>) own)
             \<noteq> em
         \<and> unconfirmedEmail
             (stored (u\<lparr>emailConfirmationToken := [], emailIsConfirmed := True\<rparr>) own) = Some em
         \<and> emailIsConfirmed
             (stored (u\<lparr>emailConfirmationToken := [], emailIsConfirmed := True\<rparr>) own)"
proof -
  have ok: "confirmEmailAddress rt token em store (Inr x) s =
      (save (u\<lparr>emailConfirmationToken := [], emailIsConfirmed := True\<rparr>) (fresh s))
        \<lparr>sent := sent s @ [Send 200 ''Ok'' ''E-Mail successfully confirmed. Thank you''
           NoData None], answered := True\<rparr>" for x
    using assms(1)
    by (simp add: confirmEmailAddress_def res_send_def catch_with_def save_def fresh_def)
  have bad: "confirmEmailAddress rt token em store (Inl err) s =
      last_catch rt err
        (save (u\<lparr>emailConfirmationToken := [], emailIsConfirmed := True\<rparr>) (fresh s))" for err
    using assms(1) by (simp add: confirmEmailAddress_def)
  have sv: "saved (confirmEmailAddress rt token em store save_result s) =
           saved s @ [u\<lparr>emailConfirmationToken := [], emailIsConfirmed := True\<rparr>]"
    by (cases save_result) (simp_all add: ok bad last_catch_frame save_def fresh_def)
  have mem: "u \<in> set store"
    using assms(1) by (rule findOne_Some_mem)
  have st: "stored (u\<lparr>emailConfirmationToken := [], emailIsConfirmed := True\<rparr>) own
             \<in> set (store_save u (u\<lparr>emailConfirmationToken := [], emailIsConfirmed := True\<rparr>)
                      own store)"
    using mem by (force simp add: store_save_def)
  have sub: "set (store_save u (u\<lparr>emailConfirmationToken := [], emailIsConfirmed := True\<rparr>)
                  own store)
             \<subseteq> insert (stored (u\<lparr>emailConfirmationToken := [], emailIsConfirmed := True\<rparr>) own)
                 (set store)"
    by (auto simp add: store_save_def)
  show ?thesis
    using sv st sub assms(2,3)
    by (simp add: ok first_response_def save_def fresh_def stored_def)
qed

theorem confirmEmailAddress_does_not_promote_witness:
  "findOne (\<lambda>u. (email u = ''b@x.com'' \<or> unconfirmedEmail u = Some ''b@x.com'')
                  \<and> emailConfirmationToken u = ''c1'') [pending_email] = Some pending_email
   \<and> unconfirmedEmail pending_email = Some ''b@x.com'' \<and> email pending_email = ''a@x.com''
   \<and> saved (confirmEmailAddress rt0 ''c1'' ''b@x.com'' [pending_email] (Inr pending_email) s0) =
       [pending_email\<lparr>emailConfirmationToken := [], emailIsConfirmed := True\<rparr>]
   \<and> first_response s0
        (confirmEmailAddress rt0 ''c1'' ''b@x.com'' [pending_email] (Inr pending_email) s0) =
       Some (Send 200 ''Ok'' ''E-Mail successfully confirmed. Thank you'' NoData None)
   \<and> store_save pending_email
        (pending_email\<lparr>emailConfirmationToken := [], emailIsConfirmed := True\<rparr>)
        (pending_email\<lparr>emailConfirmationToken := [], emailIsConfirmed := True\<rparr>)
        [pending_email] =
       [alice\<lparr>unconfirmedEmail := Some ''b@x.com'', emailIsConfirmed := True\<rparr>]
   \<and> email (alice\<lparr>unconfirmedEmail := Some ''b@x.com'', emailIsConfirmed := True\<rparr>) = ''a@x.com''"
proof -
  have f: "findOne (\<lambda>u. (email u = ''b@x.com'' \<or> unconfirmedEmail u = Some ''b@x.com'')
                  \<and> emailConfirmationToken u = ''c1'') [pending_email] = Some pending_email"
    by (simp add: pending_email_def)
  have p: "unconfirmedEmail pending_email = Some ''b@x.com''"
    by (simp add: pending_email_def)
  have e: "email pending_email = ''a@x.com''" "email pending_email \<noteq> ''b@x.com''"
    by (simp_all add: pending_email_def alice_def new_User_def)
  have st: "store_save pending_email
        (pending_email\<lparr>emailConfirmationToken := [], emailIsConfirmed := True\<rparr>)
        (pending_email\<lparr>emailConfirmationToken := [], emailIsConfirmed := True\<rparr>)
        [pending_email] =
       [alice\<lparr>unconfirmedEmail := Some ''b@x.com'', emailIsConfirmed := True\<rparr>]"
    by (simp add: store_save_def stored_def pending_email_def alice_def new_User_def)
  show ?thesis
    using f p e st confirmEmailAddress_does_not_promote
      [OF f p e(2), of rt0 "Inr pending_email" s0 pending_email]
    by (simp add: s0_def alice_def new_User_def)
qed

section \<open>Profile update: what the handler does to the user document\<close>

lemma truthy_guard: "(truthy v \<and> v \<noteq> Some []) = truthy v"
  by (auto simp: truthy_def)

lemma truthy_guard': "(\<not> truthy v \<or> v = Some []) = (\<not> truthy v)"
  by (auto simp: truthy_def)


lemma validatePassword_nonempty: "validatePassword p \<Longrightarrow> p \<noteq> []"
  by (auto simp: validatePassword_def)


lemma updateUser_catch_thrown: "updateUser_catch rt req (thrown t) s = last_catch rt (thrown t) s"
  by (simp add: updateUser_catch_def thrown_def)













section \<open>Profile update: the current password\<close>

lemma updateUser_then_wrong:
  "updateUser_then rt req False save_result s =
     last_catch rt (thrown (headers_sent rt))
       (s\<lparr>sent := sent s @ [Next (BadRequestError ''Current password not correct.''),
                              Send 200 ''Ok'' ''User successfully saved.'' (DataMe None) None],
          answered := True\<rparr>)"
  by (simp add: updateUser_then_def updateUser_saved_def res_send_def next_err_def
      catch_with_def updateUser_catch_thrown)

text \<open>
  Claim C6, as the code has it. When \<^verbatim>\<open>updateUser\<close> is asked for a new password or a
  new email and the check of the current password answers false, the response is a
  BadRequestError, the user document is unchanged, save is not invoked and no token is
  revoked. The message is that of the first check that fails, in the order of the
  source: email together with a new password, a missing or empty current password, a
  new password that is too short, and only then the wrong current password.
\<close>

theorem updateUser_wrong_current_password:
  assumes "truthy (param_newPassword req) \<or> truthy (param_email req)"
  shows "first_response s (updateUser rt req (Inr False) save_result s) =
           Some (Next (BadRequestError
             (if truthy (param_email req) \<and> truthy (param_newPassword req)
              then ''You cannot change your email address and password in the same request.''
              else if \<not> truthy (param_currentPassword req)
              then ''To change your password or email address, please supply your current password.''
              else if truthy (param_newPassword req)
                      \<and> \<not> validatePassword (val (param_newPassword req))
              then ''New password should have at least 8 characters''
              else ''Current password not correct.'')))
         \<and> req_user (updateUser rt req (Inr False) save_result s) = req_user s
         \<and> saved (updateUser rt req (Inr False) save_result s) = saved s
         \<and> blacklist (updateUser rt req (Inr False) save_result s) = blacklist s"
proof -
  let ?w = "(fresh s)\<lparr>sent := sent (fresh s) @
      [Next (BadRequestError ''Current password not correct.''),
       Send 200 ''Ok'' ''User successfully saved.'' (DataMe None) None],
      answered := True\<rparr>"
  have s: "sent ?w = sent s @ Next (BadRequestError ''Current password not correct.'')
      # [Send 200 ''Ok'' ''User successfully saved.'' (DataMe None) None]"
    by (simp add: fresh_def)
  have fr: "first_response s (last_catch rt (thrown (headers_sent rt)) ?w) =
      Some (Next (BadRequestError ''Current password not correct.''))"
    using s by (rule first_response_last_catch)
  have frame: "req_user (last_catch rt (thrown (headers_sent rt)) ?w) = req_user s"
    "saved (last_catch rt (thrown (headers_sent rt)) ?w) = saved s"
    "blacklist (last_catch rt (thrown (headers_sent rt)) ?w) = blacklist s"
    by (simp_all add: last_catch_frame fresh_def)
  show ?thesis
    using assms fr frame
    unfolding updateUser_def truthy_guard truthy_guard'
    by (simp add: updateUser_then_wrong next_err_def fresh_def first_response_def)
qed

theorem updateUser_wrong_current_password_witness:
  "truthy (param_newPassword wrong_current)
   \<and> first_response s0 (updateUser rt0 wrong_current (Inr False) (Inr alice2) s0) =
       Some (Next (BadRequestError ''Current password not correct.''))
   \<and> req_user (updateUser rt0 wrong_current (Inr False) (Inr alice2) s0) = alice
   \<and> saved (updateUser rt0 wrong_current (Inr False) (Inr alice2) s0) = []
   \<and> blacklist (updateUser rt0 wrong_current (Inr False) (Inr alice2) s0) = []
   \<and> truthy (param_newPassword short_pw_wrong_current)
   \<and> first_response s0 (updateUser rt0 short_pw_wrong_current (Inr False) (Inr alice2) s0) =
       Some (Next (BadRequestError ''New password should have at least 8 characters''))"
proof -
  have t: "truthy (param_newPassword wrong_current)"
    "truthy (param_newPassword short_pw_wrong_current)"
    by (simp_all add: wrong_current_def short_pw_wrong_current_def no_params_def truthy_def)
  have h: "truthy (param_newPassword wrong_current) \<or> truthy (param_email wrong_current)"
    "truthy (param_newPassword short_pw_wrong_current)
      \<or> truthy (param_email short_pw_wrong_current)"
    using t by simp_all
  have v: "\<not> truthy (param_email wrong_current)" "truthy (param_currentPassword wrong_current)"
    "validatePassword (val (param_newPassword wrong_current))"
    "\<not> truthy (param_email short_pw_wrong_current)"
    "truthy (param_currentPassword short_pw_wrong_current)"
    "\<not> validatePassword (val (param_newPassword short_pw_wrong_current))"
    by (simp_all add: wrong_current_def short_pw_wrong_current_def no_params_def truthy_def
        val_def validatePassword_def)
  show ?thesis
    using t v updateUser_wrong_current_password [OF h(1), of s0 rt0 "Inr alice2"]
      updateUser_wrong_current_password [OF h(2), of s0 rt0 "Inr alice2"]
    by (simp add: s0_def)
qed

text \<open>
  Claim C6 as stated fails: with a new password that is too short and a wrong current
  password the message is the one of the length check, not
  \<^verbatim>\<open>Current password not correct.\<close>
\<close>

theorem updateUser_short_password_checked_first:
  "first_response s0 (updateUser rt0 short_pw_wrong_current (Inr False) (Inr alice) s0) =
     Some (Next (BadRequestError ''New password should have at least 8 characters''))
   \<and> first_response s0 (updateUser rt0 short_pw_wrong_current (Inr False) (Inr alice) s0) \<noteq>
     Some (Next (BadRequestError ''Current password not correct.''))"
  by (simp add: s0_def short_pw_wrong_current_def no_params_def updateUser_def truthy_def val_def
      validatePassword_def next_err_def fresh_def first_response_def)

section \<open>Profile update: revocation\<close>

text \<open>
  Claim C1, as the code has it. After a successful password change through
  \<^verbatim>\<open>updateUser\<close> (no email supplied, a valid new password, a current password that is
  supplied and correct, a save that succeeds) the first response is the success message,
  the token of the request is blacklisted, and every other token is blacklisted exactly
  if it was before: a token issued later, or issued earlier to the same user in another
  session, is not revoked by the change.
\<close>

theorem updateUser_password_change_revokes_request_token:
  assumes "\<not> truthy (param_email req)"
    and "param_newPassword req = Some np" and "validatePassword np"
    and "param_currentPassword req = Some cp" and "cp \<noteq> []"
  shows "first_response s (updateUser rt req (Inr True) (Inr updated) s) =
           Some (Send 200 ''Ok''
             ''User successfully saved. Password changed. Please log in with your new password''
             (DataMe (Some updated)) None)
         \<and> password (req_user (updateUser rt req (Inr True) (Inr updated) s)) = np
         \<and> isTokenBlacklisted (req_jwt req) (updateUser rt req (Inr True) (Inr updated) s)
         \<and> (\<forall>t. t \<noteq> req_jwt req \<longrightarrow>
               isTokenBlacklisted t (updateUser rt req (Inr True) (Inr updated) s) =
               isTokenBlacklisted t s)"
  using assms validatePassword_nonempty [of np]
  by (simp add: updateUser_def truthy_def val_def updateUser_then_def
      apply_changes_def change_name_def change_language_def change_email_def change_password_def
      save_def updateUser_saved_def addTokenToBlacklist_def isTokenBlacklisted_def res_send_def
      catch_with_def fresh_def first_response_def Let_def)

theorem updateUser_password_change_revokes_request_token_witness:
  "\<not> truthy (param_email pw_change)
   \<and> param_newPassword pw_change = Some ''longenough2'' \<and> validatePassword ''longenough2''
   \<and> param_currentPassword pw_change = Some ''longenough1''
   \<and> req_jwt pw_change = ''t1''
   \<and> isTokenBlacklisted ''t1'' (updateUser rt0 pw_change (Inr True) (Inr alice2) s0)
   \<and> \<not> isTokenBlacklisted ''t3'' (updateUser rt0 pw_change (Inr True) (Inr alice2) s0)"
proof -
  have e: "\<not> truthy (param_email pw_change)"
    and n: "param_newPassword pw_change = Some ''longenough2''"
    and v: "validatePassword ''longenough2''"
    and c: "param_currentPassword pw_change = Some ''longenough1''"
    and j: "req_jwt pw_change = ''t1''"
    by (simp_all add: pw_change_def no_params_def truthy_def validatePassword_def)
  have b: "\<not> isTokenBlacklisted ''t3'' s0"
    by (simp add: isTokenBlacklisted_def s0_def)
  show ?thesis
    using e n v c j b
      updateUser_password_change_revokes_request_token [OF e n v c, of s0 rt0 alice2]
    by simp
qed

text \<open>
  Claim C1 as stated fails: not all tokens issued to the user are invalidated. After two
  sign-ins of the same user, with tokens \<^verbatim>\<open>t1\<close> and \<^verbatim>\<open>t2\<close>, a successful password change
  made with \<^verbatim>\<open>t1\<close> blacklists \<^verbatim>\<open>t1\<close> and leaves \<^verbatim>\<open>t2\<close> off the blacklist.
\<close>

theorem password_change_keeps_other_tokens:
  "sent s_signed_in =
     [Send 200 ''Authorized'' ''Successfully signed in'' (DataUser alice) (Some ''t1''),
      Send 200 ''Authorized'' ''Successfully signed in'' (DataUser alice) (Some ''t2'')]
   \<and> first_response s_signed_in s_changed =
       Some (Send 200 ''Ok''
         ''User successfully saved. Password changed. Please log in with your new password''
         (DataMe (Some alice2)) None)
   \<and> isTokenBlacklisted ''t1'' s_changed
   \<and> \<not> isTokenBlacklisted ''t2'' s_changed"
  by (simp add: s_changed_def s_signed_in_def signIn_def res_send_def s0_def pw_change_def
      no_params_def updateUser_def truthy_def val_def validatePassword_def updateUser_then_def
      apply_changes_def change_name_def change_language_def change_email_def change_password_def
      save_def updateUser_saved_def addTokenToBlacklist_def isTokenBlacklisted_def
      catch_with_def fresh_def first_response_def Let_def)

section \<open>Profile update: nothing changed\<close>

text \<open>
  Claim C2 against the code. Take a request without a new password whose name, language
  and email are each empty or equal to the current value (an email only with a current
  password that is supplied and correct), and let the save succeed. The handler answers
  with \<^verbatim>\<open>No changed properties supplied. User remains unchanged.\<close> and leaves the user
  document and the blacklist as they were. It does not return there: it goes on to
  invoke save on the user and then calls \<^verbatim>\<open>res.send\<close> a second time with
  \<^verbatim>\<open>User successfully saved.\<close> That call throws, the response being out, and the chain
  ends in its \<^verbatim>\<open>catch\<close> with the error of the runtime.
\<close>

theorem updateUser_nothing_changed_still_saves:
  assumes "\<not> truthy (param_newPassword req)"
    and "truthy (param_name req) \<longrightarrow> val (param_name req) = name (req_user s)"
    and "truthy (param_language req) \<longrightarrow> val (param_language req) = language (req_user s)"
    and "truthy (param_email req) \<longrightarrow>
           val (param_email req) = email (req_user s) \<and> truthy (param_currentPassword req)
           \<and> checkPassword_result = Inr True"
  shows "first_response s (updateUser rt req checkPassword_result (Inr updated) s) =
           Some (Send 200 ''Ok'' ''No changed properties supplied. User remains unchanged.''
             NoData None)
         \<and> req_user (updateUser rt req checkPassword_result (Inr updated) s) = req_user s
         \<and> blacklist (updateUser rt req checkPassword_result (Inr updated) s) = blacklist s
         \<and> saved (updateUser rt req checkPassword_result (Inr updated) s) = saved s @ [req_user s]
         \<and> take 2 (drop (length (sent s))
              (sent (updateUser rt req checkPassword_result (Inr updated) s))) =
             [Send 200 ''Ok'' ''No changed properties supplied. User remains unchanged.''
                NoData None,
              Send 200 ''Ok'' ''User successfully saved.'' (DataMe (Some updated)) None]
         \<and> updateUser rt req checkPassword_result (Inr updated) s =
             last_catch rt (thrown (headers_sent rt))
               (s\<lparr>saved := saved s @ [req_user s],
                  sent := sent s @
                    [Send 200 ''Ok'' ''No changed properties supplied. User remains unchanged.''
                       NoData None,
                     Send 200 ''Ok'' ''User successfully saved.'' (DataMe (Some updated)) None],
                  answered := True\<rparr>)"
proof -
  let ?a = "Send 200 ''Ok'' ''No changed properties supplied. User remains unchanged.''
      NoData None"
  let ?b = "Send 200 ''Ok'' ''User successfully saved.'' (DataMe (Some updated)) None"
  let ?w = "s\<lparr>saved := saved s @ [req_user s], sent := sent s @ [?a, ?b], answered := True\<rparr>"
  have c: "apply_changes req (req_user s) =
      \<lparr>doc = req_user s, msgs = [], signOut_flag = False, somethingsChanged = False\<rparr>"
    using assms
    by (auto simp add: apply_changes_def change_name_def change_language_def change_email_def
        change_password_def)
  have t: "updateUser_then rt req True (Inr updated) (fresh s) =
      last_catch rt (thrown (headers_sent rt)) ?w"
    by (simp add: updateUser_then_def c updateUser_saved_def res_send_def save_def fresh_def
        catch_with_def updateUser_catch_thrown)
  have u: "updateUser rt req checkPassword_result (Inr updated) s =
      updateUser_then rt req True (Inr updated) (fresh s)"
    using assms by (auto simp add: updateUser_def truthy_def)
  have s: "sent ?w = sent s @ ?a # [?b]"
    by simp
  have fr: "first_response s (last_catch rt (thrown (headers_sent rt)) ?w) = Some ?a"
    using s by (rule first_response_last_catch)
  have tk: "take 2 (drop (length (sent s)) (sent (last_catch rt (thrown (headers_sent rt)) ?w)))
      = [?a, ?b]"
    using last_catch_sent [of rt "thrown (headers_sent rt)" ?w] by auto
  show ?thesis
    unfolding u t using fr tk by (simp add: last_catch_frame)
qed

theorem updateUser_nothing_changed_still_saves_witness:
  "\<not> truthy (param_newPassword no_params) \<and> \<not> truthy (param_name no_params)
   \<and> \<not> truthy (param_language no_params) \<and> \<not> truthy (param_email no_params)
   \<and> first_response s0 (updateUser rt0 no_params (Inr True) (Inr alice) s0) =
     Some (Send 200 ''Ok'' ''No changed properties supplied. User remains unchanged.'' NoData None)
   \<and> req_user (updateUser rt0 no_params (Inr True) (Inr alice) s0) = alice
   \<and> saved (updateUser rt0 no_params (Inr True) (Inr alice) s0) = [alice]
   \<and> take 2 (sent (updateUser rt0 no_params (Inr True) (Inr alice) s0)) =
       [Send 200 ''Ok'' ''No changed properties supplied. User remains unchanged.'' NoData None,
        Send 200 ''Ok'' ''User successfully saved.'' (DataMe (Some alice)) None]"
proof -
  have n: "\<not> truthy (param_newPassword no_params)" "\<not> truthy (param_name no_params)"
    "\<not> truthy (param_language no_params)" "\<not> truthy (param_email no_params)"
    by (simp_all add: no_params_def truthy_def)
  have "first_response s0 (updateUser rt0 no_params (Inr True) (Inr alice) s0) =
     Some (Send 200 ''Ok'' ''No changed properties supplied. User remains unchanged.'' NoData None)
   \<and> req_user (updateUser rt0 no_params (Inr True) (Inr alice) s0) = req_user s0
   \<and> saved (updateUser rt0 no_params (Inr True) (Inr alice) s0) = saved s0 @ [req_user s0]
   \<and> take 2 (drop (length (sent s0)) (sent (updateUser rt0 no_params (Inr True) (Inr alice) s0))) =
       [Send 200 ''Ok'' ''No changed properties supplied. User remains unchanged.'' NoData None,
        Send 200 ''Ok'' ''User successfully saved.'' (DataMe (Some alice)) None]"
    using n updateUser_nothing_changed_still_saves [of no_params s0 "Inr True" rt0 alice]
    by blast
  then show ?thesis
    using n by (simp add: s0_def)
qed

end
